theory Spec2Isabelle
  imports Main
begin

section \<open>JavaScript values\<close>

text \<open>
  Strings are lists of code units below 256. A destructured payload field that may be
  \<^verbatim>\<open>undefined\<close> is a \<open>string option\<close>; \<open>truthy\<close> is the test the handlers write as
  \<^verbatim>\<open>if (!x)\<close>: \<^verbatim>\<open>undefined\<close> and the empty string are falsy.
\<close>

definition truthy :: "string option \<Rightarrow> bool" where
  "truthy v = (case v of None \<Rightarrow> False | Some s \<Rightarrow> s \<noteq> [])"

text \<open>
  A creation time is the number \<^verbatim>\<open>new Date(x).getTime()\<close>: milliseconds since the epoch,
  or NaN for an invalid date, written \<open>None\<close>. Every comparison with NaN is false.
\<close>

type_synonym jstime = "int option"

definition time_gt :: "jstime \<Rightarrow> jstime \<Rightarrow> bool" where
  "time_gt a b = (case a of None \<Rightarrow> False
                  | Some x \<Rightarrow> (case b of None \<Rightarrow> False | Some y \<Rightarrow> y < x))"

text \<open>
  \<^verbatim>\<open>String.prototype.trim\<close> removes white space and line terminators from both ends;
  below 256 these are TAB, LF, VT, FF, CR, SP and NBSP.
\<close>

definition isWhiteSpace :: "char \<Rightarrow> bool" where
  "isWhiteSpace c =
     (c \<in> set [CHR 0x09, CHR 0x0A, CHR 0x0B, CHR 0x0C, CHR 0x0D, CHR 0x20, CHR 0xA0])"

definition trim :: "string \<Rightarrow> string" where
  "trim s = rev (dropWhile isWhiteSpace (rev (dropWhile isWhiteSpace s)))"

text \<open>
  The regular expression \<^verbatim>\<open>/^data:(.+);base64,(.+)$/\<close> of the sendFile handler.
  A dot matches any code unit except a line terminator, both groups are greedy and
  non-empty, and without the m flag the anchors are the two ends of the input. So the
  input is \<^verbatim>\<open>data:\<close>, a first group, the separator and a second group, with no line
  terminator after the prefix; the greedy first group ends at the last separator that
  still leaves a non-empty second group. The result holds the two groups.
\<close>

definition isLineTerminator :: "char \<Rightarrow> bool" where
  "isLineTerminator c = (c = CHR 0x0A \<or> c = CHR 0x0D)"

definition matchDataUri :: "string \<Rightarrow> (string \<times> string) option" where
  "matchDataUri s =
     (let r = drop 5 s in
      if take 5 s = ''data:'' \<and> list_all (\<lambda>c. \<not> isLineTerminator c) r
      then (case filter (\<lambda>i. take 8 (drop i r) = '';base64,'') (rev [1..<length r - 8]) of
              [] \<Rightarrow> None
            | i # _ \<Rightarrow> Some (take i r, drop (i + 8) r))
      else None)"

section \<open>Data model\<close>

text \<open>\<^verbatim>\<open>MessageType\<close> and \<^verbatim>\<open>ChatType\<close> of src/types/index.ts; the server builds and
  sends objects of the same shape.\<close>

record message =
  id_m :: string
  content :: string
  chatId :: string
  userId :: string
  read :: bool
  deleted :: bool
  edited :: bool
  fileId :: "string option"
  fileName :: "string option"
  createdAt :: jstime
  updatedAt :: jstime

record chat =
  id_c :: string
  name_c :: "string option"
  isGroup :: bool
  participants :: "string list"
  lastMessage :: "message option"
  createdAt_c :: jstime
  updatedAt_c :: jstime

record fileRow =
  id_f :: string
  filename :: string
  content_type :: string
  size_f :: nat
  data_f :: string
  uploaded_by :: string

section \<open>Storage collaborator\<close>

text \<open>
  The handlers call chatModel, messageModel and fileModel (backend/models), which are not
  among the sources. The store and its operations follow the storage contract of the
  specification, section 6. The operations are total here. In the code a storage call
  that fails rejects inside the handler's try block, and the catch block then emits one
  error event on the handler's own socket; the only such path kept below is the lookup
  of a message id that is not stored.
\<close>

record store =
  chatRows :: "chat list"
  messageRows :: "message list"
  fileRows :: "fileRow list"

text \<open>Modelled from the spec: chatModel.getUserChats, the contract's
  \<^verbatim>\<open>getConversationsOf(principalId)\<close>: the conversations the principal takes part in.\<close>

definition getUserChats :: "store \<Rightarrow> string \<Rightarrow> chat list" where
  "getUserChats st uid = filter (\<lambda>c. uid \<in> set (participants c)) (chatRows st)"

text \<open>Modelled from the spec: chatModel.isParticipant, the contract's
  \<^verbatim>\<open>isParticipant(conversationId, principalId)\<close>.\<close>

definition isParticipant :: "store \<Rightarrow> string \<Rightarrow> string \<Rightarrow> bool" where
  "isParticipant st cid uid =
     list_ex (\<lambda>c. id_c c = cid \<and> uid \<in> set (participants c)) (chatRows st)"

text \<open>Modelled from the spec: chatModel.getChatParticipants, the contract's
  \<^verbatim>\<open>getConversationParticipants(conversationId)\<close>; an unknown conversation has no
  participants.\<close>

definition getChatParticipants :: "store \<Rightarrow> string \<Rightarrow> string list" where
  "getChatParticipants st cid =
     (case find (\<lambda>c. id_c c = cid) (chatRows st) of None \<Rightarrow> [] | Some c \<Rightarrow> participants c)"

text \<open>Modelled from the spec: chatModel.updateLastMessageTime, the contract's
  \<^verbatim>\<open>touchConversation(conversationId, timestamp)\<close>: sets the last-activity time.\<close>

definition updateLastMessageTime :: "store \<Rightarrow> string \<Rightarrow> int \<Rightarrow> store" where
  "updateLastMessageTime st cid now =
     st\<lparr>chatRows := map (\<lambda>c. if id_c c = cid then c\<lparr>updatedAt_c := Some now\<rparr> else c)
                        (chatRows st)\<rparr>"

text \<open>Modelled from the spec: messageModel.createMessage, the contract's
  \<^verbatim>\<open>createMessage(message)\<close>: one more stored message.\<close>

definition createMessage :: "store \<Rightarrow> message \<Rightarrow> store" where
  "createMessage st m = st\<lparr>messageRows := messageRows st @ [m]\<rparr>"

text \<open>Modelled from the spec: messageModel.getMessageById, the contract's
  \<^verbatim>\<open>getMessageById(id)\<close>; \<open>None\<close> when no stored message has the id.\<close>

definition getMessageById :: "store \<Rightarrow> string \<Rightarrow> message option" where
  "getMessageById st i = find (\<lambda>m. id_m m = i) (messageRows st)"

text \<open>Modelled from the spec: messageModel.updateMessage, the contract's
  \<^verbatim>\<open>updateMessage(id, fields)\<close>: the listed fields of the stored message are overwritten
  in place, and no row is added or removed. The handlers pass only the fields
  \<^verbatim>\<open>content\<close>, \<^verbatim>\<open>edited\<close> and \<^verbatim>\<open>deleted\<close>.\<close>

datatype field = Content string | Edited bool | Deleted bool

fun setField :: "field \<Rightarrow> message \<Rightarrow> message" where
  "setField (Content c) m = m\<lparr>content := c\<rparr>"
| "setField (Edited b) m = m\<lparr>edited := b\<rparr>"
| "setField (Deleted b) m = m\<lparr>deleted := b\<rparr>"

definition updateMessage :: "store \<Rightarrow> string \<Rightarrow> field list \<Rightarrow> store" where
  "updateMessage st i fs =
     st\<lparr>messageRows := map (\<lambda>m. if id_m m = i then fold setField fs m else m)
                           (messageRows st)\<rparr>"

text \<open>Modelled from the spec: fileModel.saveFile, the contract's
  \<^verbatim>\<open>saveAttachment(bytes, metadata)\<close>, which returns the id of the stored attachment; the
  id the storage issues is the \<open>id_f\<close> of the row handed in.\<close>

definition saveFile :: "store \<Rightarrow> fileRow \<Rightarrow> store \<times> string" where
  "saveFile st f = (st\<lparr>fileRows := fileRows st @ [f]\<rparr>, id_f f)"

section \<open>Server: backend/socket/socketHandler.js\<close>

text \<open>
  \<open>connectedUsers\<close> is the module's \<^verbatim>\<open>Map\<close> from a user id to one socket id. A socket
  carries its id and the user bound to it by the authentication middleware. What a
  handler sends is a list of emissions, each the id of the receiving socket and the event:
  \<^verbatim>\<open>socket.emit\<close> targets the handler's own socket, \<^verbatim>\<open>io.to(s).emit\<close> the socket \<open>s\<close>.
\<close>

record socket =
  socket_id :: string
  socket_user_id :: string

record server =
  connectedUsers :: "string \<rightharpoonup> string"
  db :: store

datatype event =
    Error string
  | UserOnline string
  | UserOffline string
  | ChatMessage message
  | ChatMessageUpdate message
  | ChatMessageDelete string

type_synonym emission = "string \<times> event"

text \<open>What the handlers cannot compute from their arguments: the clock (\<^verbatim>\<open>new Date()\<close>),
  \<^verbatim>\<open>uuidv4()\<close>, the id the storage gives a saved file, and Node's
  \<^verbatim>\<open>Buffer.from(s, 'base64')\<close>.\<close>

record env =
  now :: int
  uuidv4 :: string
  newFileId :: string
  fromBase64 :: "string \<Rightarrow> string"

text \<open>The loop every handler runs over a list of participants:
  \<^verbatim>\<open>ps.forEach(p => { const s = connectedUsers.get(p); if (s) io.to(s).emit(ev) })\<close>.\<close>

definition emitToConnected :: "(string \<rightharpoonup> string) \<Rightarrow> string list \<Rightarrow> event \<Rightarrow> emission list" where
  "emitToConnected cu ps ev =
     concat (map (\<lambda>p. if truthy (cu p) then (case cu p of None \<Rightarrow> [] | Some s \<Rightarrow> [(s, ev)]) else []) ps)"

definition notifyUser :: "server \<Rightarrow> string \<Rightarrow> event \<Rightarrow> emission list" where
  "notifyUser srv uid ev = emitToConnected (connectedUsers srv) [uid] ev"

definition notifyChat :: "server \<Rightarrow> string \<Rightarrow> event \<Rightarrow> emission list" where
  "notifyChat srv cid ev =
     emitToConnected (connectedUsers srv) (getChatParticipants (db srv) cid) ev"

definition isUserConnected :: "server \<Rightarrow> string \<Rightarrow> bool" where
  "isUserConnected srv uid = (connectedUsers srv uid \<noteq> None)"

text \<open>The presence announcement of the connection and disconnect handlers: for each chat
  of the user, the other participants that are connected get the event.\<close>

definition announce :: "server \<Rightarrow> string \<Rightarrow> event \<Rightarrow> emission list" where
  "announce srv uid ev =
     concat (map (\<lambda>c. emitToConnected (connectedUsers srv)
                        (filter (\<lambda>p. p \<noteq> uid) (participants c)) ev)
                 (getUserChats (db srv) uid))"

definition on_connection :: "socket \<Rightarrow> server \<Rightarrow> server \<times> emission list" where
  "on_connection sock srv =
     (let userId = socket_user_id sock;
          srv' = srv\<lparr>connectedUsers := (connectedUsers srv)(userId \<mapsto> socket_id sock)\<rparr>
      in (srv', announce srv' userId (UserOnline userId)))"

definition on_disconnect :: "socket \<Rightarrow> server \<Rightarrow> server \<times> emission list" where
  "on_disconnect sock srv =
     (let userId = socket_user_id sock;
          srv' = srv\<lparr>connectedUsers := (connectedUsers srv)(userId := None)\<rparr>
      in (srv', announce srv' userId (UserOffline userId)))"

definition on_sendMessage ::
  "socket \<Rightarrow> env \<Rightarrow> string option \<Rightarrow> string option \<Rightarrow> server \<Rightarrow> server \<times> emission list" where
  "on_sendMessage sock e chatId' content' srv =
     (case (chatId', content') of
        (Some cid, Some c) \<Rightarrow>
          if cid = [] \<or> c = []
          then (srv, [(socket_id sock, Error ''Datos incompletos para enviar mensaje'')])
          else if \<not> isParticipant (db srv) cid (socket_user_id sock)
          then (srv, [(socket_id sock, Error ''No eres participante de este chat'')])
          else
            let msg = \<lparr>id_m = uuidv4 e, content = c, chatId = cid,
                       userId = socket_user_id sock, read = False, deleted = False,
                       edited = False, fileId = None, fileName = None,
                       createdAt = Some (now e), updatedAt = Some (now e)\<rparr>;
                srv' = srv\<lparr>db := updateLastMessageTime (createMessage (db srv) msg) cid (now e)\<rparr>
            in (srv', notifyChat srv' cid (ChatMessage msg))
      | _ \<Rightarrow> (srv, [(socket_id sock, Error ''Datos incompletos para enviar mensaje'')]))"

text \<open>In the edit and delete handlers a message id that is not stored makes
  \<^verbatim>\<open>originalMessage.userId\<close> throw, and the catch block reports the failure to the socket.\<close>

definition on_editMessage ::
  "socket \<Rightarrow> env \<Rightarrow> string option \<Rightarrow> string option \<Rightarrow> server \<Rightarrow> server \<times> emission list" where
  "on_editMessage sock e messageId' content' srv =
     (case (messageId', content') of
        (Some mid, Some c) \<Rightarrow>
          if mid = [] \<or> c = []
          then (srv, [(socket_id sock, Error ''Datos incompletos para editar mensaje'')])
          else (case getMessageById (db srv) mid of
                  None \<Rightarrow> (srv, [(socket_id sock, Error ''Error al editar mensaje'')])
                | Some originalMessage \<Rightarrow>
                    if userId originalMessage \<noteq> socket_user_id sock
                    then (srv, [(socket_id sock,
                                 Error ''No tienes permiso para editar este mensaje'')])
                    else
                      let updatedMessage = originalMessage\<lparr>content := c, edited := True,
                                                          updatedAt := Some (now e)\<rparr>;
                          srv' = srv\<lparr>db := updateMessage (db srv) mid [Content c, Edited True]\<rparr>
                      in (srv', notifyChat srv' (chatId originalMessage)
                                  (ChatMessageUpdate updatedMessage)))
      | _ \<Rightarrow> (srv, [(socket_id sock, Error ''Datos incompletos para editar mensaje'')]))"

definition on_deleteMessage ::
  "socket \<Rightarrow> string option \<Rightarrow> server \<Rightarrow> server \<times> emission list" where
  "on_deleteMessage sock messageId' srv =
     (case messageId' of
        Some mid \<Rightarrow>
          if mid = []
          then (srv, [(socket_id sock, Error ''ID de mensaje requerido'')])
          else (case getMessageById (db srv) mid of
                  None \<Rightarrow> (srv, [(socket_id sock, Error ''Error al eliminar mensaje'')])
                | Some originalMessage \<Rightarrow>
                    if userId originalMessage \<noteq> socket_user_id sock
                    then (srv, [(socket_id sock,
                                 Error ''No tienes permiso para eliminar este mensaje'')])
                    else
                      let srv' = srv\<lparr>db := updateMessage (db srv) mid [Deleted True]\<rparr>
                      in (srv', notifyChat srv' (chatId originalMessage)
                                  (ChatMessageDelete mid)))
      | None \<Rightarrow> (srv, [(socket_id sock, Error ''ID de mensaje requerido'')]))"

text \<open>The sendFile payload: chat id, file name, content type, size and the data URI.
  \<^verbatim>\<open>contentType || 'application/octet-stream'\<close> and \<^verbatim>\<open>size || buffer.length\<close> fall back
  when the field is missing, empty or zero.\<close>

definition on_sendFile ::
  "socket \<Rightarrow> env \<Rightarrow> string option \<Rightarrow> string option \<Rightarrow> string option \<Rightarrow> nat option \<Rightarrow>
   string option \<Rightarrow> server \<Rightarrow> server \<times> emission list" where
  "on_sendFile sock e chatId' filename' contentType' size' fileData' srv =
     (case (chatId', filename', fileData') of
        (Some cid, Some fname, Some fileData) \<Rightarrow>
          if cid = [] \<or> fname = [] \<or> fileData = []
          then (srv, [(socket_id sock, Error ''Datos incompletos para enviar archivo'')])
          else if \<not> isParticipant (db srv) cid (socket_user_id sock)
          then (srv, [(socket_id sock, Error ''No eres participante de este chat'')])
          else (case matchDataUri fileData of
                  None \<Rightarrow> (srv, [(socket_id sock, Error (''Formato de archivo inv'' @ [CHR 0xE1] @ ''lido''))])
                | Some (mediaType, base64Data) \<Rightarrow>
                    let buffer = fromBase64 e base64Data;
                        (db1, fid) = saveFile (db srv)
                           \<lparr>id_f = newFileId e, filename = fname,
                            content_type = (if truthy contentType'
                                            then (case contentType' of Some t \<Rightarrow> t | None \<Rightarrow> [])
                                            else ''application/octet-stream''),
                            size_f = (case size' of None \<Rightarrow> length buffer
                                      | Some n \<Rightarrow> if n = 0 then length buffer else n),
                            data_f = buffer, uploaded_by = socket_user_id sock\<rparr>;
                        msg = \<lparr>id_m = uuidv4 e, content = ''Archivo: '' @ fname, chatId = cid,
                               userId = socket_user_id sock, read = False, deleted = False,
                               edited = False, fileId = Some fid, fileName = Some fname,
                               createdAt = Some (now e), updatedAt = Some (now e)\<rparr>;
                        srv' = srv\<lparr>db := updateLastMessageTime (createMessage db1 msg) cid (now e)\<rparr>
                    in (srv', notifyChat srv' cid (ChatMessage msg)))
      | _ \<Rightarrow> (srv, [(socket_id sock, Error ''Datos incompletos para enviar archivo'')]))"

text \<open>
  Channel opens and closes, in the order the server handles them. \<open>run\<close> is the
  registry after a sequence of them.
\<close>

datatype conn_event = Connect socket | Disconnect socket

fun step :: "conn_event \<Rightarrow> server \<Rightarrow> server \<times> emission list" where
  "step (Connect s) srv = on_connection s srv"
| "step (Disconnect s) srv = on_disconnect s srv"

fun run :: "conn_event list \<Rightarrow> server \<Rightarrow> server" where
  "run [] srv = srv"
| "run (ev # evs) srv = run evs (fst (step ev srv))"

subsection \<open>Presence as the specification words it\<close>

text \<open>
  Section 3 of the specification: a presence entry relates a principal to the set of its
  open channel handles, and a principal is present iff that set is non-empty. These
  definitions follow those words, over the channels the transport has open; they are what
  the registry of the code is compared with.
\<close>

fun spec_openChannels :: "socket list \<Rightarrow> conn_event list \<Rightarrow> socket list" where
  "spec_openChannels opn [] = opn"
| "spec_openChannels opn (Connect s # evs) = spec_openChannels (opn @ [s]) evs"
| "spec_openChannels opn (Disconnect s # evs) = spec_openChannels (removeAll s opn) evs"

definition spec_channelsOf :: "socket list \<Rightarrow> string \<Rightarrow> socket list" where
  "spec_channelsOf opn uid = filter (\<lambda>s. socket_user_id s = uid) opn"

definition spec_isPresent :: "socket list \<Rightarrow> string \<Rightarrow> bool" where
  "spec_isPresent opn uid = (spec_channelsOf opn uid \<noteq> [])"

text \<open>A sequence in which only open channels close and no principal opens a channel
  while it has one open.\<close>

fun singleDevice :: "socket list \<Rightarrow> conn_event list \<Rightarrow> bool" where
  "singleDevice opn [] = True"
| "singleDevice opn (Connect s # evs) =
     (socket_user_id s \<notin> set (map socket_user_id opn) \<and> singleDevice (opn @ [s]) evs)"
| "singleDevice opn (Disconnect s # evs) =
     (s \<in> set opn \<and> singleDevice (removeAll s opn) evs)"

section \<open>Client: the chat context (src/unnamed/part_002)\<close>

text \<open>
  The state of the provider: its \<^verbatim>\<open>useState\<close> cells, the current user of the
  authentication context, and \<open>socketConnected\<close> for
  \<^verbatim>\<open>socketRef.current && socketRef.current.connected\<close>. A function returns the state
  its setters leave together with what it asks of the outside: events emitted on the
  socket, requests to the REST services, toasts, and the calls it starts without awaiting
  (\<^verbatim>\<open>loadMessages\<close>, \<^verbatim>\<open>markChatAsRead\<close>), whose bodies run later. \<open>restOk\<close> says
  whether the awaited REST request resolves.

  \<^verbatim>\<open>sendMessage\<close> and \<^verbatim>\<open>editMessage\<close> reach their callers through the context value
  of the latest render, so they read the state they are called in. The socket listeners
  are different: the effect that registers them depends on \<^verbatim>\<open>currentUser\<close> alone, and
  the listeners call the \<^verbatim>\<open>handleNewMessage\<close> and \<^verbatim>\<open>handleMessageDelete\<close> of the
  render in which that effect ran. These handlers read \<^verbatim>\<open>activeChat\<close>,
  \<^verbatim>\<open>currentUser\<close> and \<^verbatim>\<open>activeChatMessages\<close> as the values of that render, while
  every setter they call takes an updater function and so works on the current state.
  Both handlers therefore take two states: \<open>rendered\<close>, the state of the render that
  registered the listeners (after a login: no open chat, no loaded messages), and the
  current state.
\<close>

record user =
  id_u :: string
  name_u :: string

record client =
  chats :: "chat list"
  activeChat :: "chat option"
  activeChatMessages :: "message list"
  loading :: bool
  error :: "string option"
  unreadMessagesCount :: nat
  isConnected :: bool
  currentUser :: "user option"
  socketConnected :: bool

datatype effect =
    Emit_sendMessage string string
  | Emit_editMessage string string
  | Rest_sendMessage string string
  | Rest_updateMessage string string
  | Call_loadMessages string
  | Call_markChatAsRead string
  | Toast string string

definition sendMessage :: "bool \<Rightarrow> string \<Rightarrow> string \<Rightarrow> client \<Rightarrow> client \<times> effect list" where
  "sendMessage restOk chatId' content' st =
     (if currentUser st = None \<or> chatId' = [] \<or> trim content' = [] then (st, [])
      else if socketConnected st then (st, [Emit_sendMessage chatId' content'])
      else if restOk then (st, [Rest_sendMessage chatId' content', Call_loadMessages chatId'])
      else (st, [Rest_sendMessage chatId' content',
                 Toast ''Error'' ''No se pudo enviar el mensaje'']))"

definition editMessage :: "bool \<Rightarrow> string \<Rightarrow> string \<Rightarrow> client \<Rightarrow> client \<times> effect list" where
  "editMessage restOk messageId' content' st =
     (if currentUser st = None \<or> messageId' = [] \<or> trim content' = [] then (st, [])
      else if socketConnected st then (st, [Emit_editMessage messageId' content'])
      else if restOk
      then (st, Rest_updateMessage messageId' content' #
                (case activeChat st of None \<Rightarrow> [] | Some a \<Rightarrow> [Call_loadMessages (id_c a)]))
      else (st, [Rest_updateMessage messageId' content',
                 Toast ''Error'' ''No se pudo editar el mensaje'']))"

definition updateChatWithLastMessage :: "message \<Rightarrow> client \<Rightarrow> client" where
  "updateChatWithLastMessage msg st =
     st\<lparr>chats := map (\<lambda>c. if id_c c = chatId msg
                            \<and> (case lastMessage c of None \<Rightarrow> True
                                | Some l \<Rightarrow> time_gt (createdAt msg) (createdAt l))
                          then c\<lparr>lastMessage := Some msg\<rparr> else c)
                     (chats st)\<rparr>"

definition notFromCurrentUser :: "client \<Rightarrow> message \<Rightarrow> bool" where
  "notFromCurrentUser rendered msg =
     (case currentUser rendered of None \<Rightarrow> False | Some u \<Rightarrow> userId msg \<noteq> id_u u)"

definition handleNewMessage :: "client \<Rightarrow> message \<Rightarrow> client \<Rightarrow> client \<times> effect list" where
  "handleNewMessage rendered msg st =
     (if (case activeChat rendered of None \<Rightarrow> False | Some a \<Rightarrow> chatId msg = id_c a)
      then (updateChatWithLastMessage msg
              (st\<lparr>activeChatMessages := activeChatMessages st @ [msg]\<rparr>),
            if notFromCurrentUser rendered msg then [Call_markChatAsRead (chatId msg)] else [])
      else if notFromCurrentUser rendered msg
      then (updateChatWithLastMessage msg
              (st\<lparr>unreadMessagesCount := unreadMessagesCount st + 1\<rparr>),
            [Toast ''Nuevo mensaje'' (''Tienes un nuevo mensaje en chat '' @ chatId msg)])
      else (updateChatWithLastMessage msg st, []))"

text \<open>
  \<^verbatim>\<open>Array.prototype.sort\<close> with a comparator is a stable sort: \<open>a\<close> goes before \<open>b\<close>
  when the comparator is negative, after it when positive, and the two keep their order
  when it is zero; a NaN result counts as zero. The comparator of the delete handler is
  \<^verbatim>\<open>getTime(b) - getTime(a)\<close>, newest first. With a comparator that is not a consistent
  order (some time is NaN) the language leaves the result to the implementation; the
  insertion sort below is then one possible result.
\<close>

definition byNewest :: "message \<Rightarrow> message \<Rightarrow> int" where
  "byNewest a b =
     (case createdAt b of None \<Rightarrow> 0
      | Some tb \<Rightarrow> (case createdAt a of None \<Rightarrow> 0 | Some ta \<Rightarrow> tb - ta))"

fun insertSorted :: "('a \<Rightarrow> 'a \<Rightarrow> int) \<Rightarrow> 'a \<Rightarrow> 'a list \<Rightarrow> 'a list" where
  "insertSorted cmp x [] = [x]"
| "insertSorted cmp x (y # ys) =
     (if cmp x y \<le> 0 then x # y # ys else y # insertSorted cmp x ys)"

definition sortJS :: "('a \<Rightarrow> 'a \<Rightarrow> int) \<Rightarrow> 'a list \<Rightarrow> 'a list" where
  "sortJS cmp xs = foldr (insertSorted cmp) xs []"

definition newLastMessage :: "string \<Rightarrow> chat \<Rightarrow> message list \<Rightarrow> message option" where
  "newLastMessage messageId' c msgs =
     (case sortJS byNewest
             (filter (\<lambda>msg. id_m msg \<noteq> messageId' \<and> chatId msg = id_c c) msgs) of
        [] \<Rightarrow> None
      | m # _ \<Rightarrow> Some m)"

definition handleMessageDelete :: "client \<Rightarrow> string \<Rightarrow> client \<Rightarrow> client" where
  "handleMessageDelete rendered messageId' st =
     st\<lparr>activeChatMessages := filter (\<lambda>msg. id_m msg \<noteq> messageId') (activeChatMessages st),
        chats := map (\<lambda>c. case lastMessage c of
                             None \<Rightarrow> c
                           | Some l \<Rightarrow>
                               if id_m l = messageId'
                               then c\<lparr>lastMessage :=
                                        newLastMessage messageId' c (activeChatMessages rendered)\<rparr>
                               else c)
                     (chats st)\<rparr>"

section \<open>Notions of the specification used in the statements\<close>

text \<open>\<open>spec_mostRecent r xs\<close>: \<open>r\<close> is one of \<open>xs\<close>, and no creation time in \<open>xs\<close> is
  later than that of \<open>r\<close>; all the times are valid.\<close>

definition spec_mostRecent :: "message \<Rightarrow> message list \<Rightarrow> bool" where
  "spec_mostRecent r xs =
     (r \<in> set xs \<and>
      (\<forall>x \<in> set xs. case createdAt x of None \<Rightarrow> False
                     | Some tx \<Rightarrow> (case createdAt r of None \<Rightarrow> False | Some tr \<Rightarrow> tx \<le> tr)))"

text \<open>The list the delete handler sorts for a chat, and the order the sort establishes
  when every time is valid.\<close>

definition remaining :: "string \<Rightarrow> chat \<Rightarrow> message list \<Rightarrow> message list" where
  "remaining messageId' c msgs = filter (\<lambda>x. id_m x \<noteq> messageId' \<and> chatId x = id_c c) msgs"

definition newer_first :: "message \<Rightarrow> message \<Rightarrow> bool" where
  "newer_first a b =
     (case createdAt b of None \<Rightarrow> False
      | Some tb \<Rightarrow> (case createdAt a of None \<Rightarrow> False | Some ta \<Rightarrow> tb \<le> ta))"

section \<open>Example states\<close>

definition exChat :: chat where
  "exChat = \<lparr>id_c = ''c1'', name_c = None, isGroup = False, participants = [''A'', ''B''],
             lastMessage = None, createdAt_c = Some 0, updatedAt_c = Some 0\<rparr>"

definition exMsg :: "string \<Rightarrow> string \<Rightarrow> int \<Rightarrow> message" where
  "exMsg i u t = \<lparr>id_m = i, content = ''hola'', chatId = ''c1'', userId = u, read = False,
                 deleted = False, edited = False, fileId = None, fileName = None,
                 createdAt = Some t, updatedAt = Some t\<rparr>"

definition exStore :: store where
  "exStore = \<lparr>chatRows = [exChat], messageRows = [exMsg ''m1'' ''A'' 10], fileRows = []\<rparr>"

definition sockA :: socket where
  "sockA = \<lparr>socket_id = ''a1'', socket_user_id = ''A''\<rparr>"

definition sockA2 :: socket where
  "sockA2 = \<lparr>socket_id = ''a2'', socket_user_id = ''A''\<rparr>"

definition sockB :: socket where
  "sockB = \<lparr>socket_id = ''b1'', socket_user_id = ''B''\<rparr>"

definition sockC :: socket where
  "sockC = \<lparr>socket_id = ''x1'', socket_user_id = ''C''\<rparr>"

definition exServer0 :: server where
  "exServer0 = \<lparr>connectedUsers = Map.empty, db = exStore\<rparr>"

definition exServer :: server where
  "exServer = \<lparr>connectedUsers = [''A'' \<mapsto> ''a1'', ''B'' \<mapsto> ''b1''], db = exStore\<rparr>"

definition exEnv :: env where
  "exEnv = \<lparr>now = 20, uuidv4 = ''m2'', newFileId = ''f1'', fromBase64 = (\<lambda>s. s)\<rparr>"

definition exClient :: client where
  "exClient = \<lparr>chats = [exChat], activeChat = Some exChat, activeChatMessages = [],
               loading = False, error = None, unreadMessagesCount = 0, isConnected = True,
               currentUser = Some \<lparr>id_u = ''A'', name_u = ''Ana''\<rparr>, socketConnected = True\<rparr>"

definition exServerA :: server where
  "exServerA = \<lparr>connectedUsers = [''A'' \<mapsto> ''a1''], db = exStore\<rparr>"

definition exClient2 :: client where
  "exClient2 = exClient\<lparr>chats := [exChat\<lparr>lastMessage := Some (exMsg ''m1'' ''A'' 10)\<rparr>],
                         activeChatMessages := [exMsg ''m3'' ''B'' 5, exMsg ''m1'' ''A'' 10]\<rparr>"

text \<open>The state of the render in which the listeners are registered after user A logs
  in: no chats loaded yet, no open chat, no loaded messages.\<close>

definition exRendered :: client where
  "exRendered = exClient\<lparr>chats := [], activeChat := None\<rparr>"

definition exMsgIn :: "string \<Rightarrow> string \<Rightarrow> message" where
  "exMsgIn i c = (exMsg i ''B'' 30)\<lparr>chatId := c\<rparr>"

section \<open>The presence registry\<close>

lemma connected_after_connection:
  "isUserConnected (fst (on_connection s srv)) v = (v = socket_user_id s \<or> isUserConnected srv v)"
  by (simp add: on_connection_def isUserConnected_def Let_def)

lemma connected_after_disconnect:
  "isUserConnected (fst (on_disconnect s srv)) v = (v \<noteq> socket_user_id s \<and> isUserConnected srv v)"
  by (simp add: on_disconnect_def isUserConnected_def Let_def)

lemma spec_isPresent_iff: "spec_isPresent opn v = (v \<in> socket_user_id ` set opn)"
  by (auto simp add: spec_isPresent_def spec_channelsOf_def filter_empty_conv)

lemma spec_isPresent_removeAll:
  assumes "distinct (map socket_user_id opn)" and "s \<in> set opn"
  shows "spec_isPresent (removeAll s opn) v = (v \<noteq> socket_user_id s \<and> spec_isPresent opn v)"
proof -
  have "\<And>t. t \<in> set opn \<Longrightarrow> socket_user_id t = socket_user_id s \<Longrightarrow> t = s"
    using assms by (meson distinct_map inj_onD)
  then show ?thesis
    using assms(2) by (auto simp add: spec_isPresent_iff)
qed

lemma distinct_users_removeAll:
  "distinct (map socket_user_id opn) \<Longrightarrow> distinct (map socket_user_id (removeAll s opn))"
  by (simp add: removeAll_filter_not_eq distinct_map_filter)

lemma run_presence:
  "distinct (map socket_user_id opn) \<Longrightarrow> singleDevice opn tr \<Longrightarrow>
   (\<And>v. isUserConnected srv v = spec_isPresent opn v) \<Longrightarrow>
   isUserConnected (run tr srv) u = spec_isPresent (spec_openChannels opn tr) u"
proof (induction tr arbitrary: opn srv)
  case Nil
  then show ?case by simp
next
  case (Cons ev evs)
  show ?case
  proof (cases ev)
    case (Connect s)
    have d: "distinct (map socket_user_id (opn @ [s]))"
      using Cons.prems(1,2) Connect by simp
    have sd: "singleDevice (opn @ [s]) evs"
      using Cons.prems(2) Connect by simp
    have inv: "\<And>v. isUserConnected (fst (on_connection s srv)) v = spec_isPresent (opn @ [s]) v"
      using Cons.prems(3) by (auto simp add: connected_after_connection spec_isPresent_iff)
    show ?thesis
      using Cons.IH [OF d sd inv] Connect by simp
  next
    case (Disconnect s)
    have mem: "s \<in> set opn" using Cons.prems(2) Disconnect by simp
    have d: "distinct (map socket_user_id (removeAll s opn))"
      using Cons.prems(1) by (rule distinct_users_removeAll)
    have sd: "singleDevice (removeAll s opn) evs"
      using Cons.prems(2) Disconnect by simp
    have inv: "\<And>v. isUserConnected (fst (on_disconnect s srv)) v = spec_isPresent (removeAll s opn) v"
      using Cons.prems(3) spec_isPresent_removeAll [OF Cons.prems(1) mem]
      by (simp add: connected_after_disconnect)
    show ?thesis
      using Cons.IH [OF d sd inv] Disconnect by simp
  qed
qed

text \<open>
  Claim C1 says that a principal with at least one open channel is present, that closing
  a channel which is not its last leaves it present, and that the offline event is sent
  only when its last channel closes. The registry holds one socket id per user and the
  disconnect handler deletes the user's entry whichever socket closes, so this fails
  once a user has two channels: below, user A opens two channels and closes the first;
  the second is still open, the registry no longer knows A, and B is told that A went
  offline.
\<close>

theorem multi_device_disconnect_counterexample:
  "spec_channelsOf (spec_openChannels [] [Connect sockB, Connect sockA, Connect sockA2, Disconnect sockA]) ''A''
     = [sockA2] \<and>
   \<not> isUserConnected (run [Connect sockB, Connect sockA, Connect sockA2, Disconnect sockA] exServer0) ''A'' \<and>
   snd (step (Disconnect sockA) (run [Connect sockB, Connect sockA, Connect sockA2] exServer0))
     = [(''b1'', UserOffline ''A'')]"
  by (simp add: spec_channelsOf_def sockA_def sockA2_def sockB_def exServer0_def
      on_connection_def on_disconnect_def isUserConnected_def Let_def announce_def
      getUserChats_def exStore_def exChat_def emitToConnected_def truthy_def)

text \<open>
  C1 as the code has it. Right after a channel of a user opens, the user is connected;
  after any channel of the user closes, the user is not connected, and the offline event
  goes to the connected other participants of each of the user's chats, once per chat.
  So, in a sequence in which no user has two channels open at a time, started from an
  empty registry, a user is connected exactly when it is present in the sense of the
  specification, and every channel close is the close of a last channel.
\<close>

theorem presence_registry_one_channel_per_user:
  "isUserConnected (fst (on_connection sock srv)) (socket_user_id sock) \<and>
   \<not> isUserConnected (fst (on_disconnect sock srv)) (socket_user_id sock) \<and>
   snd (on_disconnect sock srv) =
     concat (map (\<lambda>c. emitToConnected ((connectedUsers srv)(socket_user_id sock := None))
                        (filter (\<lambda>p. p \<noteq> socket_user_id sock) (participants c))
                        (UserOffline (socket_user_id sock)))
                 (getUserChats (db srv) (socket_user_id sock))) \<and>
   (singleDevice [] tr \<and> connectedUsers srv0 = Map.empty \<longrightarrow>
      isUserConnected (run tr srv0) u = spec_isPresent (spec_openChannels [] tr) u)"
proof -
  have a: "isUserConnected (fst (on_connection sock srv)) (socket_user_id sock)"
    by (simp add: connected_after_connection)
  have b: "\<not> isUserConnected (fst (on_disconnect sock srv)) (socket_user_id sock)"
    by (simp add: connected_after_disconnect)
  have c: "snd (on_disconnect sock srv) =
     concat (map (\<lambda>c. emitToConnected ((connectedUsers srv)(socket_user_id sock := None))
                        (filter (\<lambda>p. p \<noteq> socket_user_id sock) (participants c))
                        (UserOffline (socket_user_id sock)))
                 (getUserChats (db srv) (socket_user_id sock)))"
    by (simp add: on_disconnect_def announce_def Let_def)
  have d: "isUserConnected (run tr srv0) u = spec_isPresent (spec_openChannels [] tr) u"
    if "singleDevice [] tr" and "connectedUsers srv0 = Map.empty"
  proof (rule run_presence [OF _ that(1)])
    show "distinct (map socket_user_id [])" by simp
    show "\<And>v. isUserConnected srv0 v = spec_isPresent [] v"
      using that(2) by (simp add: isUserConnected_def spec_isPresent_iff)
  qed
  show ?thesis using a b c d by blast
qed

theorem presence_registry_one_channel_per_user_witness:
  "singleDevice [] [Connect sockB, Connect sockA, Disconnect sockA] \<and>
   connectedUsers exServer0 = Map.empty \<and>
   isUserConnected (run [Connect sockB, Connect sockA, Disconnect sockA] exServer0) ''B'' \<and>
   \<not> isUserConnected (run [Connect sockB, Connect sockA, Disconnect sockA] exServer0) ''A'' \<and>
   snd (on_disconnect sockA exServer) = [(''b1'', UserOffline ''A'')]"
proof -
  let ?tr = "[Connect sockB, Connect sockA, Disconnect sockA]"
  have h1: "singleDevice [] ?tr"
    by (simp add: sockA_def sockB_def)
  have h2: "connectedUsers exServer0 = Map.empty"
    by (simp add: exServer0_def)
  have p: "spec_isPresent (spec_openChannels [] ?tr) ''B''"
    "\<not> spec_isPresent (spec_openChannels [] ?tr) ''A''"
    by (simp_all add: spec_isPresent_def spec_channelsOf_def sockA_def sockB_def)
  have e: "concat (map (\<lambda>c. emitToConnected ((connectedUsers exServer)(socket_user_id sockA := None))
                        (filter (\<lambda>p. p \<noteq> socket_user_id sockA) (participants c))
                        (UserOffline (socket_user_id sockA)))
                 (getUserChats (db exServer) (socket_user_id sockA))) = [(''b1'', UserOffline ''A'')]"
    by (simp add: exServer_def exStore_def exChat_def sockA_def getUserChats_def
        emitToConnected_def truthy_def)
  note t = presence_registry_one_channel_per_user [of _ _ ?tr exServer0]
  show ?thesis
    using h1 h2 p e t [of sockA exServer "''B''"] t [of sockA exServer "''A''"]
    by simp
qed

section \<open>Rejected requests\<close>

text \<open>
  C2: a sendMessage event from a user who is not a participant of the chat is answered
  with a single error event on the sender's own socket; the server state, and so the
  stored messages and the chat's last-message time, is unchanged and nothing is sent to
  anyone else. The error is the participation error unless a field is missing, in which
  case it is the validation error.
\<close>

theorem send_by_non_participant_rejected:
  assumes "\<not> isParticipant (db srv) cid (socket_user_id sock)"
  shows "on_sendMessage sock e (Some cid) content' srv =
           (srv, [(socket_id sock,
                   Error (if cid = [] \<or> \<not> truthy content'
                          then ''Datos incompletos para enviar mensaje''
                          else ''No eres participante de este chat''))])"
  using assms by (simp add: on_sendMessage_def truthy_def split: option.splits)

theorem send_by_non_participant_rejected_witness:
  "\<not> isParticipant (db exServer) ''c1'' (socket_user_id sockC) \<and>
   on_sendMessage sockC exEnv (Some ''c1'') (Some ''hola'') exServer =
     (exServer, [(''x1'', Error ''No eres participante de este chat'')])"
proof -
  have h: "\<not> isParticipant (db exServer) ''c1'' (socket_user_id sockC)"
    by (simp add: isParticipant_def exServer_def exStore_def exChat_def sockC_def)
  show ?thesis
    using h send_by_non_participant_rejected [OF h, of exEnv "Some ''hola''"]
    by (simp add: truthy_def sockC_def)
qed

text \<open>
  C7: an editMessage event for a stored message whose author is another user is answered
  with a single error event on the requester's own socket; the server state, and so the
  stored message's body and edited flag, is unchanged and no update event is sent.
\<close>

theorem edit_by_non_author_rejected:
  assumes "getMessageById (db srv) mid = Some m" and "userId m \<noteq> socket_user_id sock"
  shows "on_editMessage sock e (Some mid) content' srv =
           (srv, [(socket_id sock,
                   Error (if mid = [] \<or> \<not> truthy content'
                          then ''Datos incompletos para editar mensaje''
                          else ''No tienes permiso para editar este mensaje''))])"
  using assms by (simp add: on_editMessage_def truthy_def split: option.splits)

theorem edit_by_non_author_rejected_witness:
  "getMessageById (db exServer) ''m1'' = Some (exMsg ''m1'' ''A'' 10) \<and>
   userId (exMsg ''m1'' ''A'' 10) \<noteq> socket_user_id sockB \<and>
   on_editMessage sockB exEnv (Some ''m1'') (Some ''otro'') exServer =
     (exServer, [(''b1'', Error ''No tienes permiso para editar este mensaje'')])"
proof -
  have h1: "getMessageById (db exServer) ''m1'' = Some (exMsg ''m1'' ''A'' 10)"
    by (simp add: getMessageById_def exServer_def exStore_def exMsg_def)
  have h2: "userId (exMsg ''m1'' ''A'' 10) \<noteq> socket_user_id sockB"
    by (simp add: exMsg_def sockB_def)
  show ?thesis
    using h1 h2 edit_by_non_author_rejected [OF h1 h2, of exEnv "Some ''otro''"]
    by (simp add: truthy_def sockB_def)
qed

section \<open>Client send and edit guards\<close>

text \<open>
  C10: with no current user, or with content that is empty after trimming, sendMessage
  and editMessage return at once: no socket event, no REST request, no call of
  loadMessages, no toast, and the state is the one they were called in.
\<close>

theorem blank_send_and_edit_do_nothing:
  assumes "currentUser st = None \<or> trim content' = []"
  shows "sendMessage restOk chatId' content' st = (st, []) \<and>
         editMessage restOk messageId' content' st = (st, [])"
  using assms by (auto simp add: sendMessage_def editMessage_def)

theorem blank_send_and_edit_do_nothing_witness:
  "trim ''  '' = [] \<and>
   sendMessage True ''c1'' ''  '' exClient = (exClient, []) \<and>
   editMessage True ''m1'' ''  '' exClient = (exClient, [])"
proof -
  have t: "trim ''  '' = []"
    by (simp add: trim_def isWhiteSpace_def)
  then have h: "currentUser exClient = None \<or> trim ''  '' = []" ..
  show ?thesis
    using t blank_send_and_edit_do_nothing
            [OF h, where restOk = True and chatId' = "''c1''" and messageId' = "''m1''"]
    by simp
qed

section \<open>Attachments\<close>

text \<open>
  The regular expression of the sendFile handler matches exactly the inputs that are
  \<^verbatim>\<open>data:\<close>, a non-empty group, \<^verbatim>\<open>;base64,\<close> and a second non-empty group, with no line
  terminator in either group.
\<close>

lemma matchDataUri_Some_iff:
  "(matchDataUri s \<noteq> None) =
     (\<exists>g1 g2. s = ''data:'' @ g1 @ '';base64,'' @ g2 \<and> g1 \<noteq> [] \<and> g2 \<noteq> [] \<and>
              (\<forall>c \<in> set (g1 @ g2). \<not> isLineTerminator c))"
proof
  assume "matchDataUri s \<noteq> None"
  define r where "r = drop 5 s"
  from \<open>matchDataUri s \<noteq> None\<close>
  have pre: "take 5 s = ''data:''" and lt: "list_all (\<lambda>c. \<not> isLineTerminator c) r"
    and ne: "filter (\<lambda>i. take 8 (drop i r) = '';base64,'') (rev [1..<length r - 8]) \<noteq> []"
    by (auto simp add: matchDataUri_def Let_def r_def split: if_splits list.splits)
  from ne obtain i where i: "i \<in> set (rev [1..<length r - 8])" "take 8 (drop i r) = '';base64,''"
    by (auto simp add: filter_empty_conv)
  then have bounds: "1 \<le> i" "i + 8 < length r" by auto
  have "drop i r = take 8 (drop i r) @ drop 8 (drop i r)"
    by (simp only: append_take_drop_id)
  then have "drop i r = '';base64,'' @ drop (i + 8) r"
    using i(2) by (simp only: drop_drop add.commute)
  then have split: "r = take i r @ '';base64,'' @ drop (i + 8) r"
    by (metis append_take_drop_id)
  have s: "s = ''data:'' @ r"
    using pre append_take_drop_id [of 5 s] by (simp add: r_def)
  have g1: "take i r \<noteq> []" using bounds by auto
  have g2: "drop (i + 8) r \<noteq> []" using bounds by auto
  have "\<forall>c \<in> set (take i r @ drop (i + 8) r). \<not> isLineTerminator c"
    using lt by (auto simp add: list_all_iff dest: in_set_takeD in_set_dropD)
  with s split g1 g2 show "\<exists>g1 g2. s = ''data:'' @ g1 @ '';base64,'' @ g2 \<and> g1 \<noteq> [] \<and> g2 \<noteq> [] \<and>
              (\<forall>c \<in> set (g1 @ g2). \<not> isLineTerminator c)"
    by metis
next
  assume "\<exists>g1 g2. s = ''data:'' @ g1 @ '';base64,'' @ g2 \<and> g1 \<noteq> [] \<and> g2 \<noteq> [] \<and>
              (\<forall>c \<in> set (g1 @ g2). \<not> isLineTerminator c)"
  then obtain g1 g2 where s: "s = ''data:'' @ g1 @ '';base64,'' @ g2"
    and ne: "g1 \<noteq> []" "g2 \<noteq> []" and lt: "\<forall>c \<in> set (g1 @ g2). \<not> isLineTerminator c"
    by blast
  define r where "r = g1 @ '';base64,'' @ g2"
  have r: "drop 5 s = r" "take 5 s = ''data:''" by (simp_all add: s r_def)
  have all: "list_all (\<lambda>c. \<not> isLineTerminator c) r"
    using lt by (auto simp add: r_def list_all_iff isLineTerminator_def)
  have len: "length r = length g1 + 8 + length g2" by (simp add: r_def)
  have "length g1 \<in> set (rev [1..<length r - 8])"
    using ne by (auto simp add: len Suc_le_eq)
  moreover have "take 8 (drop (length g1) r) = '';base64,''" by (simp add: r_def)
  ultimately have "filter (\<lambda>i. take 8 (drop i r) = '';base64,'') (rev [1..<length r - 8]) \<noteq> []"
    by (auto simp add: filter_empty_conv)
  then show "matchDataUri s \<noteq> None"
    using r all by (auto simp add: matchDataUri_def Let_def split: list.splits)
qed

text \<open>
  C6: a sendFile event whose data is missing or is not matched by the data-URI expression
  is answered with a single error event on the sender's own socket, whatever the other
  fields are; the server state is unchanged (no file saved, no message created, no chat
  time touched) and no chat:message event is sent.
\<close>

theorem undecodable_attachment_rejected:
  assumes "\<forall>d. fileData' = Some d \<longrightarrow> matchDataUri d = None"
  shows "fst (on_sendFile sock e chatId' filename' contentType' size' fileData' srv) = srv \<and>
         (\<exists>msg \<in> {''Datos incompletos para enviar archivo'',
                   ''No eres participante de este chat'',
                   ''Formato de archivo inv'' @ [CHR 0xE1] @ ''lido''}.
            snd (on_sendFile sock e chatId' filename' contentType' size' fileData' srv) =
              [(socket_id sock, Error msg)])"
  using assms by (auto simp add: on_sendFile_def split: option.splits)

theorem undecodable_attachment_rejected_witness:
  "matchDataUri ''hola'' = None \<and>
   on_sendFile sockA exEnv (Some ''c1'') (Some ''a.txt'') None None (Some ''hola'') exServer =
     (exServer, [(''a1'', Error (''Formato de archivo inv'' @ [CHR 0xE1] @ ''lido''))])"
proof -
  have h: "\<forall>d. Some ''hola'' = Some d \<longrightarrow> matchDataUri d = None"
    by (simp add: matchDataUri_def)
  have "isParticipant (db exServer) ''c1'' (socket_user_id sockA)"
    by (simp add: isParticipant_def exServer_def exStore_def exChat_def sockA_def)
  then show ?thesis
    using h undecodable_attachment_rejected [OF h, of sockA exEnv "Some ''c1''" "Some ''a.txt''" None None exServer]
    by (simp add: on_sendFile_def matchDataUri_def sockA_def)
qed

section \<open>Fan-out of a sent message\<close>

lemma find_chat_touched:
  "find (\<lambda>c. id_c c = cid')
     (map (\<lambda>c. if id_c c = cid then c\<lparr>updatedAt_c := Some t\<rparr> else c) xs) =
   map_option (\<lambda>c. if id_c c = cid then c\<lparr>updatedAt_c := Some t\<rparr> else c)
     (find (\<lambda>c. id_c c = cid') xs)"
  by (induction xs) auto

lemma getChatParticipants_touch:
  "getChatParticipants (updateLastMessageTime st cid t) cid' = getChatParticipants st cid'"
  by (cases "find (\<lambda>c. id_c c = cid') (chatRows st)")
     (simp_all add: getChatParticipants_def updateLastMessageTime_def find_chat_touched)

lemma getChatParticipants_createMessage:
  "getChatParticipants (createMessage st m) cid = getChatParticipants st cid"
  by (simp add: getChatParticipants_def createMessage_def)

lemma getChatParticipants_updateMessage:
  "getChatParticipants (updateMessage st i fs) cid = getChatParticipants st cid"
  by (simp add: getChatParticipants_def updateMessage_def)

lemma emitToConnected_set:
  "set (emitToConnected cu ps ev) = {(s, ev) | s. s \<noteq> [] \<and> (\<exists>p \<in> set ps. cu p = Some s)}"
  by (auto simp add: emitToConnected_def truthy_def split: option.splits if_splits)

lemma emitToConnected_length:
  "length (emitToConnected cu ps ev) = length (filter (\<lambda>p. truthy (cu p)) ps)"
  by (induction ps) (auto simp add: emitToConnected_def truthy_def split: option.splits)

text \<open>
  C3: a sendMessage event with both fields, from a participant of the chat, stores the
  message and sends chat:message with it to the registered socket of every participant
  that the registry knows, the sender included, once per entry of the participant list,
  and sends nothing else: every emission is that event, to the socket of a connected
  participant. A participant the registry does not know gets nothing, and the server
  state changes only by the stored message and the chat's time, so nothing is kept for
  later delivery. Socket ids in the registry are non-empty, as the ids are that the
  transport issues.
\<close>

theorem fanout_to_connected_participants:
  assumes "cid \<noteq> []" and "c \<noteq> []"
    and "isParticipant (db srv) cid (socket_user_id sock)"
    and "\<forall>p s. connectedUsers srv p = Some s \<longrightarrow> s \<noteq> []"
  shows "\<exists>msg. id_m msg = uuidv4 e \<and> content msg = c \<and> chatId msg = cid \<and>
           userId msg = socket_user_id sock \<and> \<not> edited msg \<and> \<not> deleted msg \<and>
           fst (on_sendMessage sock e (Some cid) (Some c) srv) =
             srv\<lparr>db := updateLastMessageTime (createMessage (db srv) msg) cid (now e)\<rparr> \<and>
           snd (on_sendMessage sock e (Some cid) (Some c) srv) =
             concat (map (\<lambda>p. case connectedUsers srv p of None \<Rightarrow> []
                               | Some s \<Rightarrow> [(s, ChatMessage msg)])
                         (getChatParticipants (db srv) cid)) \<and>
           (\<forall>p \<in> set (getChatParticipants (db srv) cid). \<forall>s. connectedUsers srv p = Some s \<longrightarrow>
                (s, ChatMessage msg) \<in> set (snd (on_sendMessage sock e (Some cid) (Some c) srv))) \<and>
           (\<forall>em \<in> set (snd (on_sendMessage sock e (Some cid) (Some c) srv)).
                snd em = ChatMessage msg \<and>
                (\<exists>p \<in> set (getChatParticipants (db srv) cid). connectedUsers srv p = Some (fst em))) \<and>
           length (snd (on_sendMessage sock e (Some cid) (Some c) srv)) =
             length (filter (\<lambda>p. isUserConnected srv p) (getChatParticipants (db srv) cid))"
proof -
  define msg where "msg = \<lparr>id_m = uuidv4 e, content = c, chatId = cid,
                       userId = socket_user_id sock, read = False, deleted = False,
                       edited = False, fileId = None, fileName = None,
                       createdAt = Some (now e), updatedAt = Some (now e)\<rparr>"
  let ?r = "on_sendMessage sock e (Some cid) (Some c) srv"
  let ?ps = "getChatParticipants (db srv) cid"
  have t: "truthy (connectedUsers srv p) = (connectedUsers srv p \<noteq> None)" for p
    using assms(4) by (cases "connectedUsers srv p") (simp_all add: truthy_def)
  have st: "fst ?r = srv\<lparr>db := updateLastMessageTime (createMessage (db srv) msg) cid (now e)\<rparr>"
    using assms(1-3) by (simp add: on_sendMessage_def msg_def Let_def)
  have em: "snd ?r = emitToConnected (connectedUsers srv) ?ps (ChatMessage msg)"
    using assms(1-3)
    by (simp add: on_sendMessage_def msg_def Let_def notifyChat_def
        getChatParticipants_touch getChatParticipants_createMessage)
  have em_list: "snd ?r = concat (map (\<lambda>p. case connectedUsers srv p of None \<Rightarrow> []
                               | Some s \<Rightarrow> [(s, ChatMessage msg)]) ?ps)"
    unfolding em emitToConnected_def
    by (rule arg_cong [where f = concat], rule map_cong) (auto simp add: t split: option.splits)
  have em_set: "set (snd ?r) = {(s, ChatMessage msg) | s. \<exists>p \<in> set ?ps. connectedUsers srv p = Some s}"
    unfolding em emitToConnected_set using assms(4) by auto
  have em_len: "length (snd ?r) = length (filter (\<lambda>p. isUserConnected srv p) ?ps)"
    unfolding em emitToConnected_length by (simp add: t isUserConnected_def)
  have every: "\<forall>p \<in> set ?ps. \<forall>s. connectedUsers srv p = Some s \<longrightarrow> (s, ChatMessage msg) \<in> set (snd ?r)"
    unfolding em_set by blast
  have only: "\<forall>em \<in> set (snd ?r). snd em = ChatMessage msg \<and>
                (\<exists>p \<in> set ?ps. connectedUsers srv p = Some (fst em))"
    unfolding em_set by auto
  have fields: "id_m msg = uuidv4 e \<and> content msg = c \<and> chatId msg = cid \<and>
           userId msg = socket_user_id sock \<and> \<not> edited msg \<and> \<not> deleted msg"
    by (simp add: msg_def)
  show ?thesis
    using fields st em_list every only em_len by blast
qed

theorem fanout_to_connected_participants_witness:
  "''c1'' \<noteq> [] \<and> ''hola'' \<noteq> [] \<and> isParticipant (db exServerA) ''c1'' (socket_user_id sockA) \<and>
   connectedUsers exServerA ''A'' = Some ''a1'' \<and>
   getChatParticipants (db exServerA) ''c1'' = [''A'', ''B''] \<and>
   \<not> isUserConnected exServerA ''B'' \<and>
   snd (on_sendMessage sockA exEnv (Some ''c1'') (Some ''hola'') exServerA) =
     [(''a1'', ChatMessage ((exMsg ''m2'' ''A'' 20)\<lparr>content := ''hola''\<rparr>))]"
proof -
  have h1: "''c1'' \<noteq> []" and h2: "''hola'' \<noteq> []" by simp_all
  have h3: "isParticipant (db exServerA) ''c1'' (socket_user_id sockA)"
    by (simp add: isParticipant_def exServerA_def exStore_def exChat_def sockA_def)
  have h4: "\<forall>p s. connectedUsers exServerA p = Some s \<longrightarrow> s \<noteq> []"
    by (simp add: exServerA_def)
  have ps: "getChatParticipants (db exServerA) ''c1'' = [''A'', ''B'']"
    by (simp add: getChatParticipants_def exServerA_def exStore_def exChat_def)
  have cu: "connectedUsers exServerA ''A'' = Some ''a1''" "connectedUsers exServerA ''B'' = None"
    by (simp_all add: exServerA_def)
  from fanout_to_connected_participants [OF h1 h2 h3 h4, of exEnv]
  obtain msg where m: "id_m msg = uuidv4 exEnv" "content msg = ''hola''" "chatId msg = ''c1''"
      "userId msg = socket_user_id sockA"
    and st: "fst (on_sendMessage sockA exEnv (Some ''c1'') (Some ''hola'') exServerA) =
               exServerA\<lparr>db := updateLastMessageTime (createMessage (db exServerA) msg) ''c1'' (now exEnv)\<rparr>"
    and em: "snd (on_sendMessage sockA exEnv (Some ''c1'') (Some ''hola'') exServerA) =
               concat (map (\<lambda>p. case connectedUsers exServerA p of None \<Rightarrow> []
                                 | Some s \<Rightarrow> [(s, ChatMessage msg)])
                           (getChatParticipants (db exServerA) ''c1''))"
    by blast
  have one: "snd (on_sendMessage sockA exEnv (Some ''c1'') (Some ''hola'') exServerA)
               = [(''a1'', ChatMessage msg)]"
    using em by (simp add: ps cu)
  have "snd (on_sendMessage sockA exEnv (Some ''c1'') (Some ''hola'') exServerA) =
          [(''a1'', ChatMessage ((exMsg ''m2'' ''A'' 20)\<lparr>content := ''hola''\<rparr>))]"
    using h3 by (simp add: on_sendMessage_def Let_def notifyChat_def getChatParticipants_touch
        getChatParticipants_createMessage ps emitToConnected_def truthy_def cu
        exEnv_def exMsg_def sockA_def)
  then show ?thesis
    using h3 ps cu one by (simp add: isUserConnected_def)
qed

section \<open>Deleting a message\<close>

lemma find_message_updated:
  "(\<And>m. id_m (f m) = id_m m) \<Longrightarrow>
   find (\<lambda>m. id_m m = i) (map (\<lambda>m. if id_m m = i then f m else m) xs) =
   map_option f (find (\<lambda>m. id_m m = i) xs)"
  by (induction xs) auto

lemma getMessageById_deleted:
  "getMessageById (updateMessage st i [Deleted True]) i =
     map_option (\<lambda>m. m\<lparr>deleted := True\<rparr>) (getMessageById st i)"
  by (simp add: getMessageById_def updateMessage_def find_message_updated)

lemma updateMessage_deleted_twice:
  "updateMessage (updateMessage st i [Deleted True]) i [Deleted True] =
     updateMessage st i [Deleted True]"
  by (simp add: updateMessage_def comp_def cong: map_cong)

text \<open>
  Claim C5 says that a second delete of an already deleted message by its author produces
  no error and no duplicate message-deleted event. The delete handler does not look at the
  deleted flag: the second delete of message m1 by its author A sends
  chat:message:delete to the connected participants again.
\<close>

theorem second_delete_duplicate_event_counterexample:
  "snd (on_deleteMessage sockA (Some ''m1'') (fst (on_deleteMessage sockA (Some ''m1'') exServer)))
     = [(''a1'', ChatMessageDelete ''m1''), (''b1'', ChatMessageDelete ''m1'')]"
  by (simp add: on_deleteMessage_def getMessageById_def updateMessage_def notifyChat_def
      getChatParticipants_def emitToConnected_def truthy_def Let_def
      exServer_def exStore_def exChat_def exMsg_def sockA_def)

text \<open>
  C5 as the code has it. A delete by the author sets the deleted flag of the stored
  message and removes no row, and sends chat:message:delete with the message id to the
  connected participants of the message's chat. A second delete of the same message by
  the author reports no error and leaves the server state as the first delete left it,
  and it sends the same delete events once more.
\<close>

theorem delete_sets_flag_and_repeats_event:
  assumes "mid \<noteq> []" and "getMessageById (db srv) mid = Some m"
    and "userId m = socket_user_id sock"
  shows "getMessageById (db (fst (on_deleteMessage sock (Some mid) srv))) mid
           = Some (m\<lparr>deleted := True\<rparr>) \<and>
         length (messageRows (db (fst (on_deleteMessage sock (Some mid) srv))))
           = length (messageRows (db srv)) \<and>
         snd (on_deleteMessage sock (Some mid) srv)
           = notifyChat srv (chatId m) (ChatMessageDelete mid) \<and>
         on_deleteMessage sock (Some mid) (fst (on_deleteMessage sock (Some mid) srv))
           = (fst (on_deleteMessage sock (Some mid) srv),
              notifyChat srv (chatId m) (ChatMessageDelete mid))"
proof -
  let ?srv1 = "srv\<lparr>db := updateMessage (db srv) mid [Deleted True]\<rparr>"
  have n: "notifyChat ?srv1 cid ev = notifyChat srv cid ev" for cid ev
    by (simp add: notifyChat_def getChatParticipants_updateMessage)
  have first: "on_deleteMessage sock (Some mid) srv =
                 (?srv1, notifyChat srv (chatId m) (ChatMessageDelete mid))"
    using assms by (simp add: on_deleteMessage_def Let_def n)
  have g: "getMessageById (db ?srv1) mid = Some (m\<lparr>deleted := True\<rparr>)"
    using assms(2) by (simp add: getMessageById_deleted)
  have second: "on_deleteMessage sock (Some mid) ?srv1 =
                 (?srv1, notifyChat srv (chatId m) (ChatMessageDelete mid))"
    using assms(1,3) g
    by (simp add: on_deleteMessage_def Let_def n updateMessage_deleted_twice)
  have len: "length (messageRows (db ?srv1)) = length (messageRows (db srv))"
    by (simp add: updateMessage_def)
  show ?thesis
    using g second len by (simp add: first)
qed

theorem delete_sets_flag_and_repeats_event_witness:
  "''m1'' \<noteq> [] \<and> getMessageById (db exServer) ''m1'' = Some (exMsg ''m1'' ''A'' 10) \<and>
   userId (exMsg ''m1'' ''A'' 10) = socket_user_id sockA \<and>
   getMessageById (db (fst (on_deleteMessage sockA (Some ''m1'') exServer))) ''m1''
     = Some ((exMsg ''m1'' ''A'' 10)\<lparr>deleted := True\<rparr>) \<and>
   snd (on_deleteMessage sockA (Some ''m1'') exServer)
     = [(''a1'', ChatMessageDelete ''m1''), (''b1'', ChatMessageDelete ''m1'')]"
proof -
  have h1: "''m1'' \<noteq> []" by simp
  have h2: "getMessageById (db exServer) ''m1'' = Some (exMsg ''m1'' ''A'' 10)"
    by (simp add: getMessageById_def exServer_def exStore_def exMsg_def)
  have h3: "userId (exMsg ''m1'' ''A'' 10) = socket_user_id sockA"
    by (simp add: exMsg_def sockA_def)
  have n: "notifyChat exServer (chatId (exMsg ''m1'' ''A'' 10)) (ChatMessageDelete ''m1'')
             = [(''a1'', ChatMessageDelete ''m1''), (''b1'', ChatMessageDelete ''m1'')]"
    by (simp add: notifyChat_def getChatParticipants_def emitToConnected_def truthy_def
        exServer_def exStore_def exChat_def exMsg_def)
  show ?thesis
    using h2 h3 n delete_sets_flag_and_repeats_event [OF h1 h2 h3]
    by simp
qed

section \<open>Client: sending while connected\<close>

text \<open>
  Claim C4 says that a send on a connected channel appends a pending local message to the
  view at once. The client's sendMessage only emits the event: the state it returns is
  the state it was called in, here with an empty message view.
\<close>

theorem optimistic_append_counterexample:
  "socketConnected exClient \<and>
   activeChatMessages (fst (sendMessage True ''c1'' ''hola'' exClient)) = [] \<and>
   snd (sendMessage True ''c1'' ''hola'' exClient) = [Emit_sendMessage ''c1'' ''hola'']"
  by (simp add: sendMessage_def exClient_def trim_def isWhiteSpace_def)

text \<open>
  C4 as the code has it. With a current user, a chat id and content that is not blank, a
  send on a connected socket emits sendMessage with the chat id and the content and
  leaves the whole state as it was: no local message, pending or not, is appended to the
  view at send time, so the send leaves no pending entry for a later event to reconcile.
\<close>

theorem connected_send_emits_without_local_append:
  assumes "currentUser st \<noteq> None" and "chatId' \<noteq> []" and "trim content' \<noteq> []"
    and "socketConnected st"
  shows "sendMessage restOk chatId' content' st = (st, [Emit_sendMessage chatId' content'])"
  using assms by (simp add: sendMessage_def)

theorem connected_send_emits_without_local_append_witness:
  "currentUser exClient \<noteq> None \<and> ''c1'' \<noteq> [] \<and> trim ''hola'' \<noteq> [] \<and> socketConnected exClient \<and>
   sendMessage True ''c1'' ''hola'' exClient = (exClient, [Emit_sendMessage ''c1'' ''hola''])"
proof -
  have h1: "currentUser exClient \<noteq> None" by (simp add: exClient_def)
  have h2: "''c1'' \<noteq> []" by simp
  have h3: "trim ''hola'' \<noteq> []" by (simp add: trim_def isWhiteSpace_def)
  have h4: "socketConnected exClient" by (simp add: exClient_def)
  show ?thesis
    using h1 h3 h4
      connected_send_emits_without_local_append [OF h1 h2 h3 h4, where restOk = True]
    by simp
qed

section \<open>Client: reconciling chat:message\<close>

lemma chats_after_new:
  "chats (fst (handleNewMessage rendered msg st)) =
     map (\<lambda>c. if id_c c = chatId msg
                  \<and> (case lastMessage c of None \<Rightarrow> True
                      | Some l \<Rightarrow> time_gt (createdAt msg) (createdAt l))
               then c\<lparr>lastMessage := Some msg\<rparr> else c) (chats st)"
  by (simp add: handleNewMessage_def updateChatWithLastMessage_def)

text \<open>
  Claim C8 says that a message of the currently open conversation is appended to that
  conversation's view, and that otherwise an unread counter for the message's conversation
  is incremented. Two things differ in the code. The listener reads the open chat of the
  render that registered it: registered after the login, when no chat was open, it does
  not append a message from B for chat c1, which has been opened since, and counts it as
  unread. And the unread count is one number for the provider, not one per conversation:
  with chat c1 open, a message for chat c2 and a message for chat c3 raise the same count
  from 0 to 2.
\<close>

theorem open_chat_message_counterexample:
  "activeChat exRendered = None \<and>
   activeChat exClient2 = Some exChat \<and> chatId (exMsg ''m2'' ''B'' 20) = id_c exChat \<and>
   activeChatMessages (fst (handleNewMessage exRendered (exMsg ''m2'' ''B'' 20) exClient2))
     = activeChatMessages exClient2 \<and>
   unreadMessagesCount exClient2 = 0 \<and>
   unreadMessagesCount (fst (handleNewMessage exRendered (exMsg ''m2'' ''B'' 20) exClient2)) = 1 \<and>
   unreadMessagesCount exClient = 0 \<and>
   unreadMessagesCount
     (fst (handleNewMessage exClient (exMsgIn ''m6'' ''c3'')
        (fst (handleNewMessage exClient (exMsgIn ''m5'' ''c2'') exClient)))) = 2"
  by (simp add: handleNewMessage_def updateChatWithLastMessage_def notFromCurrentUser_def
      exRendered_def exClient2_def exClient_def exChat_def exMsg_def exMsgIn_def)

text \<open>
  C8 as the code has it by design, for a listener whose render has the open chat and the
  current user of the current state. A chat:message event for the open chat appends the
  message to the view and leaves the unread count; for any other chat it leaves the view
  and adds one to the provider's single unread count, which is kept for all chats
  together, unless the author is the current user. In every case the chat list keeps its
  length, chats other than the message's chat are unchanged, and a chat of the message
  that has a cached projection gets the message as its projection if the message's
  creation time is newer than the cached one's and is unchanged if not; a chat of the
  message with no cached projection gets the message as its first projection. What a
  listener does whose render had another open chat is left out here.
\<close>

theorem new_message_reconciled:
  assumes "activeChat rendered = activeChat st"
    and "currentUser rendered = currentUser st" and "currentUser st = Some u"
  shows "let st' = fst (handleNewMessage rendered msg st)
         in (if (case activeChat st of None \<Rightarrow> False | Some a \<Rightarrow> chatId msg = id_c a)
             then activeChatMessages st' = activeChatMessages st @ [msg] \<and>
                  unreadMessagesCount st' = unreadMessagesCount st
             else activeChatMessages st' = activeChatMessages st \<and>
                  unreadMessagesCount st' =
                    (if userId msg = id_u u then unreadMessagesCount st
                     else unreadMessagesCount st + 1)) \<and>
            length (chats st') = length (chats st) \<and>
            (\<forall>i < length (chats st).
               if id_c (chats st ! i) = chatId msg
               then (case lastMessage (chats st ! i) of
                       Some l \<Rightarrow>
                         if time_gt (createdAt msg) (createdAt l)
                         then chats st' ! i = (chats st ! i)\<lparr>lastMessage := Some msg\<rparr>
                         else chats st' ! i = chats st ! i
                     | None \<Rightarrow> chats st' ! i = (chats st ! i)\<lparr>lastMessage := Some msg\<rparr>)
               else chats st' ! i = chats st ! i)"
proof -
  define st' where "st' = fst (handleNewMessage rendered msg st)"
  have a: "if (case activeChat st of None \<Rightarrow> False | Some a \<Rightarrow> chatId msg = id_c a)
           then activeChatMessages st' = activeChatMessages st @ [msg] \<and>
                unreadMessagesCount st' = unreadMessagesCount st
           else activeChatMessages st' = activeChatMessages st \<and>
                unreadMessagesCount st' =
                  (if userId msg = id_u u then unreadMessagesCount st
                   else unreadMessagesCount st + 1)"
    using assms
    by (simp add: st'_def handleNewMessage_def updateChatWithLastMessage_def
        notFromCurrentUser_def)
  have b: "length (chats st') = length (chats st)"
    by (simp add: st'_def chats_after_new)
  have c: "if id_c (chats st ! i) = chatId msg
           then (case lastMessage (chats st ! i) of
                   Some l \<Rightarrow>
                     if time_gt (createdAt msg) (createdAt l)
                     then chats st' ! i = (chats st ! i)\<lparr>lastMessage := Some msg\<rparr>
                     else chats st' ! i = chats st ! i
                 | None \<Rightarrow> chats st' ! i = (chats st ! i)\<lparr>lastMessage := Some msg\<rparr>)
           else chats st' ! i = chats st ! i"
    if "i < length (chats st)" for i
    using that by (simp add: st'_def chats_after_new split: option.splits)
  have "(if (case activeChat st of None \<Rightarrow> False | Some a \<Rightarrow> chatId msg = id_c a)
             then activeChatMessages st' = activeChatMessages st @ [msg] \<and>
                  unreadMessagesCount st' = unreadMessagesCount st
             else activeChatMessages st' = activeChatMessages st \<and>
                  unreadMessagesCount st' =
                    (if userId msg = id_u u then unreadMessagesCount st
                     else unreadMessagesCount st + 1)) \<and>
            length (chats st') = length (chats st) \<and>
            (\<forall>i < length (chats st).
               if id_c (chats st ! i) = chatId msg
               then (case lastMessage (chats st ! i) of
                       Some l \<Rightarrow>
                         if time_gt (createdAt msg) (createdAt l)
                         then chats st' ! i = (chats st ! i)\<lparr>lastMessage := Some msg\<rparr>
                         else chats st' ! i = chats st ! i
                     | None \<Rightarrow> chats st' ! i = (chats st ! i)\<lparr>lastMessage := Some msg\<rparr>)
               else chats st' ! i = chats st ! i)"
    using a b c by blast
  then show ?thesis
    unfolding Let_def st'_def .
qed

theorem new_message_reconciled_witness:
  "currentUser exClient2 = Some \<lparr>id_u = ''A'', name_u = ''Ana''\<rparr> \<and>
   activeChatMessages (fst (handleNewMessage exClient2 (exMsg ''m2'' ''B'' 20) exClient2))
     = [exMsg ''m3'' ''B'' 5, exMsg ''m1'' ''A'' 10, exMsg ''m2'' ''B'' 20] \<and>
   unreadMessagesCount (fst (handleNewMessage exClient2 (exMsg ''m2'' ''B'' 20) exClient2)) = 0 \<and>
   chats (fst (handleNewMessage exClient2 (exMsg ''m2'' ''B'' 20) exClient2)) ! 0
     = exChat\<lparr>lastMessage := Some (exMsg ''m2'' ''B'' 20)\<rparr> \<and>
   chats (fst (handleNewMessage exClient2 (exMsg ''m0'' ''B'' 7) exClient2)) ! 0
     = exChat\<lparr>lastMessage := Some (exMsg ''m1'' ''A'' 10)\<rparr> \<and>
   unreadMessagesCount
     (fst (handleNewMessage exClient2 (exMsgIn ''m5'' ''c2'') exClient2)) = 1"
proof -
  have h: "currentUser exClient2 = Some \<lparr>id_u = ''A'', name_u = ''Ana''\<rparr>"
    by (simp add: exClient2_def exClient_def)
  have t: "time_gt (createdAt (exMsg ''m2'' ''B'' 20)) (createdAt (exMsg ''m1'' ''A'' 10))"
    "\<not> time_gt (createdAt (exMsg ''m0'' ''B'' 7)) (createdAt (exMsg ''m1'' ''A'' 10))"
    by (simp_all add: exMsg_def time_gt_def)
  have f: "activeChat exClient2 = Some exChat"
    "chats exClient2 = [exChat\<lparr>lastMessage := Some (exMsg ''m1'' ''A'' 10)\<rparr>]"
    "activeChatMessages exClient2 = [exMsg ''m3'' ''B'' 5, exMsg ''m1'' ''A'' 10]"
    "unreadMessagesCount exClient2 = 0"
    "chatId (exMsg ''m2'' ''B'' 20) = id_c exChat" "chatId (exMsg ''m0'' ''B'' 7) = id_c exChat"
    "userId (exMsg ''m2'' ''B'' 20) = ''B''"
    "chatId (exMsgIn ''m5'' ''c2'') \<noteq> id_c exChat" "userId (exMsgIn ''m5'' ''c2'') = ''B''"
    by (simp_all add: exClient2_def exClient_def exMsg_def exMsgIn_def exChat_def)
  show ?thesis
    using h t
      new_message_reconciled [OF refl refl h, where msg = "exMsg ''m2'' ''B'' 20"]
      new_message_reconciled [OF refl refl h, where msg = "exMsg ''m0'' ''B'' 7"]
      new_message_reconciled [OF refl refl h, where msg = "exMsgIn ''m5'' ''c2''"]
    by (simp add: f Let_def)
qed

section \<open>Client: reconciling chat:message:delete\<close>

lemma set_insertSorted: "set (insertSorted cmp x ys) = insert x (set ys)"
  by (induction ys) auto

lemma set_sortJS: "set (sortJS cmp xs) = set xs"
  by (induction xs) (simp_all add: sortJS_def set_insertSorted)

lemma sortJS_Nil_iff: "(sortJS cmp xs = []) = (xs = [])"
  by (metis set_sortJS set_empty)

lemma newer_first_trans: "newer_first a b \<Longrightarrow> newer_first b c \<Longrightarrow> newer_first a c"
  by (auto simp add: newer_first_def split: option.splits)

lemma sorted_insertSorted:
  assumes "createdAt x \<noteq> None" and "\<forall>y \<in> set ys. createdAt y \<noteq> None"
    and "sorted_wrt newer_first ys"
  shows "sorted_wrt newer_first (insertSorted byNewest x ys)"
  using assms
proof (induction ys)
  case Nil
  then show ?case by simp
next
  case (Cons y ys)
  from Cons.prems obtain tx ty where t: "createdAt x = Some tx" "createdAt y = Some ty"
    by auto
  show ?case
  proof (cases "byNewest x y \<le> 0")
    case True
    then have xy: "newer_first x y"
      using t by (simp add: byNewest_def newer_first_def)
    have "\<forall>z \<in> set ys. newer_first x z"
      using Cons.prems(3) xy by (auto intro: newer_first_trans)
    with True xy Cons.prems(3) show ?thesis by simp
  next
    case False
    then have yx: "newer_first y x"
      using t by (simp add: byNewest_def newer_first_def)
    have "sorted_wrt newer_first (insertSorted byNewest x ys)"
      using Cons by simp
    with False yx Cons.prems(3) show ?thesis
      by (auto simp add: set_insertSorted)
  qed
qed

lemma sorted_sortJS:
  "\<forall>x \<in> set xs. createdAt x \<noteq> None \<Longrightarrow> sorted_wrt newer_first (sortJS byNewest xs)"
proof (induction xs)
  case Nil
  then show ?case by (simp add: sortJS_def)
next
  case (Cons x xs)
  have "sorted_wrt newer_first (sortJS byNewest xs)" using Cons by simp
  moreover have "\<forall>y \<in> set (sortJS byNewest xs). createdAt y \<noteq> None"
    using Cons.prems by (simp add: set_sortJS)
  moreover have "createdAt x \<noteq> None" using Cons.prems by simp
  ultimately have "sorted_wrt newer_first (insertSorted byNewest x (sortJS byNewest xs))"
    by (simp add: sorted_insertSorted)
  then show ?case by (simp add: sortJS_def)
qed

lemma head_sortJS_newest:
  assumes "\<forall>x \<in> set xs. createdAt x \<noteq> None" and "sortJS byNewest xs = r # rest"
  shows "spec_mostRecent r xs"
proof -
  have s: "sorted_wrt newer_first (r # rest)"
    using sorted_sortJS [OF assms(1)] assms(2) by simp
  have mem: "set xs = insert r (set rest)"
    using set_sortJS [of byNewest xs] assms(2) by simp
  obtain tr where tr: "createdAt r = Some tr"
    using assms(1) mem by auto
  have "case createdAt x of None \<Rightarrow> False
        | Some tx \<Rightarrow> (case createdAt r of None \<Rightarrow> False | Some tr \<Rightarrow> tx \<le> tr)"
    if "x \<in> set xs" for x
  proof (cases "x = r")
    case True
    then show ?thesis using tr by simp
  next
    case False
    then have "x \<in> set rest" using that mem by simp
    then have "newer_first r x" using s by simp
    then show ?thesis by (simp add: newer_first_def)
  qed
  then show ?thesis
    using mem by (simp add: spec_mostRecent_def)
qed

lemma newLastMessage_newest:
  assumes "\<forall>x \<in> set msgs. createdAt x \<noteq> None"
  shows "(case newLastMessage mid c msgs of
            None \<Rightarrow> remaining mid c msgs = []
          | Some r \<Rightarrow> spec_mostRecent r (remaining mid c msgs))"
proof -
  have unf: "newLastMessage mid c msgs =
               (case sortJS byNewest (remaining mid c msgs) of [] \<Rightarrow> None | m # _ \<Rightarrow> Some m)"
    by (simp add: newLastMessage_def remaining_def)
  show ?thesis
  proof (cases "sortJS byNewest (remaining mid c msgs)")
    case Nil
    then have "remaining mid c msgs = []" by (simp add: sortJS_Nil_iff)
    with Nil show ?thesis by (simp add: unf)
  next
    case (Cons r rest)
    have "\<forall>x \<in> set (remaining mid c msgs). createdAt x \<noteq> None"
      using assms by (simp add: remaining_def)
    then have "spec_mostRecent r (remaining mid c msgs)"
      using Cons by (rule head_sortJS_newest)
    with Cons show ?thesis by (simp add: unf)
  qed
qed

lemma handleNewMessage_messages:
  "activeChatMessages (fst (handleNewMessage rendered msg st)) =
     (if (case activeChat rendered of None \<Rightarrow> False | Some a \<Rightarrow> chatId msg = id_c a)
      then activeChatMessages st @ [msg] else activeChatMessages st)"
  by (simp add: handleNewMessage_def updateChatWithLastMessage_def)

lemma loaded_after_delete:
  "filter (\<lambda>x. chatId x = id_c c)
     (activeChatMessages
        (handleMessageDelete rendered (id_m msg) (fst (handleNewMessage rendered msg st))))
   = remaining (id_m msg) c (activeChatMessages st)"
  by (simp add: handleMessageDelete_def handleNewMessage_messages remaining_def conj_commute)

text \<open>
  Whatever render registered the listeners, a chat:message event followed by a
  chat:message:delete event for the id of the same message leaves the loaded messages
  that were loaded before, without that id.
\<close>

lemma created_then_deleted_messages:
  "activeChatMessages
     (handleMessageDelete rendered (id_m msg) (fst (handleNewMessage rendered msg st)))
   = filter (\<lambda>x. id_m x \<noteq> id_m msg) (activeChatMessages st)"
  by (simp add: handleMessageDelete_def handleNewMessage_messages)

text \<open>
  When the render that registered the listeners has the loaded messages of the current
  state, the recomputed projection is what the delete handler is written to find: for a
  chat whose projection had the deleted id, a most recent one, by creation time, of the
  messages of that chat that remain loaded, or none when no message of that chat remains
  loaded. The creation times of the loaded messages are valid dates.
\<close>

lemma created_then_deleted_current_render:
  assumes "\<forall>x \<in> set (activeChatMessages st). createdAt x \<noteq> None"
    and "activeChatMessages rendered = activeChatMessages st"
    and "i < length (chats (fst (handleNewMessage rendered msg st)))"
    and "lastMessage (chats (fst (handleNewMessage rendered msg st)) ! i) = Some l"
    and "id_m l = id_m msg"
  shows "case lastMessage
                (chats (handleMessageDelete rendered (id_m msg)
                          (fst (handleNewMessage rendered msg st))) ! i) of
           None \<Rightarrow>
             filter (\<lambda>x. chatId x = id_c (chats (fst (handleNewMessage rendered msg st)) ! i))
               (activeChatMessages
                  (handleMessageDelete rendered (id_m msg)
                     (fst (handleNewMessage rendered msg st)))) = []
         | Some r \<Rightarrow>
             spec_mostRecent r
               (filter (\<lambda>x. chatId x = id_c (chats (fst (handleNewMessage rendered msg st)) ! i))
                  (activeChatMessages
                     (handleMessageDelete rendered (id_m msg)
                        (fst (handleNewMessage rendered msg st)))))"
proof -
  define st1 where "st1 = fst (handleNewMessage rendered msg st)"
  have eq: "lastMessage (chats (handleMessageDelete rendered (id_m msg) st1) ! i) =
          newLastMessage (id_m msg) (chats st1 ! i) (activeChatMessages st)"
    using assms(2-5) by (simp add: handleMessageDelete_def st1_def)
  have loaded: "filter (\<lambda>x. chatId x = id_c c)
                   (activeChatMessages (handleMessageDelete rendered (id_m msg) st1))
                 = remaining (id_m msg) c (activeChatMessages st)" for c
    unfolding st1_def by (rule loaded_after_delete)
  have "case newLastMessage (id_m msg) (chats st1 ! i) (activeChatMessages st) of
           None \<Rightarrow>
             filter (\<lambda>x. chatId x = id_c (chats st1 ! i))
               (activeChatMessages (handleMessageDelete rendered (id_m msg) st1)) = []
         | Some r \<Rightarrow>
             spec_mostRecent r
               (filter (\<lambda>x. chatId x = id_c (chats st1 ! i))
                  (activeChatMessages (handleMessageDelete rendered (id_m msg) st1)))"
    using newLastMessage_newest [OF assms(1), of "id_m msg" "chats st1 ! i"]
    by (simp only: loaded)
  then have "case lastMessage (chats (handleMessageDelete rendered (id_m msg) st1) ! i) of
           None \<Rightarrow>
             filter (\<lambda>x. chatId x = id_c (chats st1 ! i))
               (activeChatMessages (handleMessageDelete rendered (id_m msg) st1)) = []
         | Some r \<Rightarrow>
             spec_mostRecent r
               (filter (\<lambda>x. chatId x = id_c (chats st1 ! i))
                  (activeChatMessages (handleMessageDelete rendered (id_m msg) st1)))"
    by (simp only: eq)
  then show ?thesis
    unfolding st1_def .
qed

text \<open>
  Claim C9 says that after chat:message and chat:message:delete for the same id the
  message is gone from the loaded set, and that a chat whose projection was the deleted
  message gets as its projection the most recent message that remains loaded, or null when
  none remains. The first half holds. The second half is what the delete handler is
  written to do, but it sorts the \<^verbatim>\<open>activeChatMessages\<close> of the render that registered
  the listener, not the loaded messages. Below, A logs in, opens chat c1 with messages m3
  and m1 loaded and m1 as the projection; m2 arrives and becomes the projection, and is
  then deleted. The messages m3 and m1 remain loaded, m1 being the most recent, and the
  projection of c1 becomes null.
\<close>

theorem stale_projection_after_delete:
  "activeChatMessages exRendered = [] \<and>
   map lastMessage (chats exClient2) = [Some (exMsg ''m1'' ''A'' 10)] \<and>
   map lastMessage (chats (fst (handleNewMessage exRendered (exMsg ''m2'' ''B'' 20) exClient2)))
     = [Some (exMsg ''m2'' ''B'' 20)] \<and>
   activeChatMessages
     (handleMessageDelete exRendered ''m2''
        (fst (handleNewMessage exRendered (exMsg ''m2'' ''B'' 20) exClient2)))
     = [exMsg ''m3'' ''B'' 5, exMsg ''m1'' ''A'' 10] \<and>
   map lastMessage
     (chats (handleMessageDelete exRendered ''m2''
               (fst (handleNewMessage exRendered (exMsg ''m2'' ''B'' 20) exClient2))))
     = [None]"
  by (simp add: handleMessageDelete_def handleNewMessage_def updateChatWithLastMessage_def
      notFromCurrentUser_def newLastMessage_def sortJS_def time_gt_def
      exRendered_def exClient2_def exClient_def exChat_def exMsg_def)

end
